theory Spec2Isabelle
  imports Complex_Main
begin

section \<open>Data model\<close>

text \<open>
  The records exchanged between the backend and the web interface, as declared in
  \<^verbatim>\<open>InterfazMonitoreoManzanas/src/services/api.ts\<close> (\<^verbatim>\<open>DetectionResult\<close>,
  \<^verbatim>\<open>StatsResponse\<close>). Counters are Python integers serialised to JSON numbers:
  they are modelled as \<^typ>\<open>int\<close>; confidences and rates as \<^typ>\<open>real\<close>.
\<close>

record file_paths =
  original :: string
  roi :: "string option"
  mask :: "string option"

record DetectionResult =
  timestamp :: string
  classification :: string
  confidence :: real
  is_fruit :: bool
  fruit_type :: string
  spoiled :: bool
  image_shape :: "int list"
  paths :: file_paths

record by_status =
  OK :: int
  MALOGRADA :: int

record StatsSummary =
  total_detections :: int
  total_fruits :: int
  total_non_fruits :: int
  fruits_by_type :: "(string \<times> int) list"
  fruits_by_status :: by_status
  success_rate :: real

record StatsResponse =
  summary :: StatsSummary
  detection_history :: "DetectionResult list"
  last_updated :: string

section \<open>StatsStore\<close>

text \<open>
  The backend's \<^verbatim>\<open>DetectionService\<close> (\<^verbatim>\<open>detection_service.py\<close>) keeps the
  statistics in \<^verbatim>\<open>detection_stats.json\<close>. Its code is not among the sources: only the
  response type, the callers and the documentation of what is accumulated and what is
  reset are. The store below is therefore modelled from the specification (sections 3,
  4.6 and 7) and from the lists "Datos que se Acumulan" and "Datos que se Resetean".
\<close>

definition zero_summary :: StatsSummary where
  "zero_summary =
     \<lparr>total_detections = 0, total_fruits = 0, total_non_fruits = 0, fruits_by_type = [],
      fruits_by_status = \<lparr>OK = 0, MALOGRADA = 0\<rparr>, success_rate = 0\<rparr>"

definition zero_stats :: "string \<Rightarrow> StatsResponse" where
  "zero_stats t = \<lparr>summary = zero_summary, detection_history = [], last_updated = t\<rparr>"

text \<open>A dictionary of counters: \<^verbatim>\<open>d[k] = d.get(k, 0) + 1\<close>, keys in insertion order.\<close>

fun bump :: "string \<Rightarrow> (string \<times> int) list \<Rightarrow> (string \<times> int) list" where
  "bump k [] = [(k, 1)]"
| "bump k ((k', v) # kvs) = (if k = k' then (k', v + 1) # kvs else (k', v) # bump k kvs)"

definition sum_values :: "(string \<times> int) list \<Rightarrow> int" where
  "sum_values d = sum_list (map snd d)"

definition bump_status :: "bool \<Rightarrow> by_status \<Rightarrow> by_status" where
  "bump_status is_spoiled st =
     (if is_spoiled then st\<lparr>MALOGRADA := MALOGRADA st + 1\<rparr> else st\<lparr>OK := OK st + 1\<rparr>)"

definition rate :: "StatsSummary \<Rightarrow> real" where
  "rate s =
     (if total_fruits s = 0 then 0
      else real_of_int (OK (fruits_by_status s)) / real_of_int (total_fruits s))"

definition update_summary :: "DetectionResult \<Rightarrow> StatsSummary \<Rightarrow> StatsSummary" where
  \<comment> \<open>Modelled from the spec: the counter update of \<^verbatim>\<open>DetectionService._update_stats\<close>,
      whose code is not among the sources. Every detection counts once; a fruit counts
      under its type and under OK or MALOGRADA; the success rate is recomputed.\<close>
  "update_summary r s =
     (let s1 = s\<lparr>total_detections := total_detections s + 1\<rparr>;
          s2 = (if is_fruit r
                then s1\<lparr>total_fruits := total_fruits s1 + 1,
                        fruits_by_type := bump (fruit_type r) (fruits_by_type s1),
                        fruits_by_status := bump_status (spoiled r) (fruits_by_status s1)\<rparr>
                else s1\<lparr>total_non_fruits := total_non_fruits s1 + 1\<rparr>)
      in s2\<lparr>success_rate := rate s2\<rparr>)"

definition push_capped :: "nat \<Rightarrow> 'a \<Rightarrow> 'a list \<Rightarrow> 'a list" where
  \<comment> \<open>Modelled from the spec: the history is capped, the oldest entry is evicted first.\<close>
  "push_capped n x xs = (let ys = xs @ [x] in drop (length ys - n) ys)"

datatype store_error = PersistenceFailure

record StatsStore =
  mem :: StatsResponse
  disk :: StatsResponse
  history_cap :: nat

record store_env =
  now :: string
  write_ok :: bool
  retry_ok :: bool

definition persist ::
  "store_env \<Rightarrow> StatsResponse \<Rightarrow> StatsStore \<Rightarrow> (store_error + unit) \<times> StatsStore" where
  \<comment> \<open>Modelled from the spec: the new contents are published in memory and written to
      durable storage by an atomic replace; a failed write is retried once, then
      surfaced, the in-memory counters staying the source of truth.\<close>
  "persist env f st =
     (if write_ok env \<or> retry_ok env then (Inr (), st\<lparr>mem := f, disk := f\<rparr>)
      else (Inl PersistenceFailure, st\<lparr>mem := f\<rparr>))"

definition update_stats ::
  "store_env \<Rightarrow> DetectionResult \<Rightarrow> StatsStore \<Rightarrow> (store_error + unit) \<times> StatsStore" where
  \<comment> \<open>Modelled from the spec: \<^verbatim>\<open>DetectionService._update_stats(result)\<close>, the
      store's \<^verbatim>\<open>record\<close> operation.\<close>
  "update_stats env r st =
     persist env
       \<lparr>summary = update_summary r (summary (mem st)),
        detection_history = push_capped (history_cap st) r (detection_history (mem st)),
        last_updated = now env\<rparr> st"

definition reset_stats :: "store_env \<Rightarrow> StatsStore \<Rightarrow> (store_error + unit) \<times> StatsStore" where
  \<comment> \<open>Modelled from the spec: \<^verbatim>\<open>DELETE /stats\<close>, the store's \<^verbatim>\<open>reset\<close>.\<close>
  "reset_stats env st = persist env (zero_stats (now env)) st"

definition get_stats :: "StatsStore \<Rightarrow> StatsResponse" where
  \<comment> \<open>Modelled from the spec: \<^verbatim>\<open>GET /stats\<close>, a snapshot of summary, history and
      last-updated time.\<close>
  "get_stats st = mem st"

definition new_store :: "nat \<Rightarrow> string \<Rightarrow> StatsStore" where
  "new_store n t = \<lparr>mem = zero_stats t, disk = zero_stats t, history_cap = n\<rparr>"

datatype store_op = Record store_env DetectionResult | Reset store_env

fun apply_op :: "StatsStore \<Rightarrow> store_op \<Rightarrow> StatsStore" where
  "apply_op st (Record env r) = snd (update_stats env r st)"
| "apply_op st (Reset env) = snd (reset_stats env st)"

definition run_store :: "store_op list \<Rightarrow> StatsStore \<Rightarrow> StatsStore" where
  "run_store ops st = foldl apply_op st ops"

definition summary_invariant :: "StatsSummary \<Rightarrow> bool" where
  "summary_invariant s \<longleftrightarrow>
     total_fruits s = sum_values (fruits_by_type s) \<and>
     total_fruits s = OK (fruits_by_status s) + MALOGRADA (fruits_by_status s) \<and>
     total_detections s = total_fruits s + total_non_fruits s"

definition store_invariant :: "StatsStore \<Rightarrow> bool" where
  "store_invariant st \<longleftrightarrow>
     summary_invariant (summary (mem st)) \<and> summary_invariant (summary (disk st))"

section \<open>FusionEngine\<close>

datatype label = acceptable | defective | unknown | no_object

datatype vote_source = model | heuristic | fused

record ClassificationVote =
  vote_label :: label
  vote_confidence :: real
  vote_source :: vote_source

definition fuse ::
  "real \<Rightarrow> bool \<Rightarrow> ClassificationVote \<Rightarrow> ClassificationVote \<Rightarrow> ClassificationVote" where
  \<comment> \<open>Modelled from the spec: the fusion of the model's and the heuristic's votes lives in
      \<^verbatim>\<open>detection_service.py\<close>, which is not among the sources. Section 4.4: an invalid
      ROI short-circuits to no_object with confidence 1; agreement on acceptable or
      defective gives that label with the larger confidence, source fused; otherwise
      the heuristic's vote is preferred when its confidence exceeds the trust threshold,
      the model's vote if not.\<close>
  "fuse trust_threshold roi_valid m h =
     (if \<not> roi_valid
      then \<lparr>vote_label = no_object, vote_confidence = 1, vote_source = fused\<rparr>
      else if vote_label m = vote_label h \<and> vote_label m \<in> set [acceptable, defective]
      then \<lparr>vote_label = vote_label m,
            vote_confidence = max (vote_confidence m) (vote_confidence h),
            vote_source = fused\<rparr>
      else if vote_confidence h > trust_threshold then h
      else m)"

section \<open>CameraService\<close>

text \<open>
  \<^verbatim>\<open>camera_service.py\<close> is documented by excerpts (\<^verbatim>\<open>CAMARA_REAL_INTEGRADA.md\<close>,
  \<^verbatim>\<open>DOCUMENTACION/INTEGRACION_MONITOREO_CAPTURA.md\<close>). The excerpts are translated as
  they stand; what an excerpt elides (\<^verbatim>\<open># ... resto del codigo\<close>) is a definition of
  its own, marked as modelled from the specification.

  The camera is outside the program. \<^verbatim>\<open>cv2.VideoCapture(index)\<close> returns a handle that
  is open or not; the device record lists the outcome of each future call and counts
  the calls made. \<^verbatim>\<open>time.sleep\<close>, \<^verbatim>\<open>print\<close> and the thread join have no effect on
  the state modelled here.
\<close>

datatype VideoCapture = VideoCapture (isOpened: bool)

record Device =
  outcomes :: "bool list"
  opens :: nat

definition cv2_VideoCapture :: "int \<Rightarrow> Device \<Rightarrow> VideoCapture \<times> Device" where
  "cv2_VideoCapture camera_index d =
     (case outcomes d of
        [] \<Rightarrow> (VideoCapture False, d\<lparr>opens := opens d + 1\<rparr>)
      | ok # later \<Rightarrow> (VideoCapture ok, d\<lparr>outcomes := later, opens := opens d + 1\<rparr>))"

definition device_opens :: "Device \<Rightarrow> bool" where
  "device_opens d = list_ex (\<lambda>ok. ok) (take 2 (outcomes d))"

definition open_attempts :: "Device \<Rightarrow> nat" where
  \<comment> \<open>The \<^verbatim>\<open>cv2.VideoCapture\<close> calls of a start that has to open the device: one, or two
      when the first handle is not open.\<close>
  "open_attempts d = (case outcomes d of [] \<Rightarrow> 2 | ok # later \<Rightarrow> if ok then 1 else 2)"

text \<open>
  The fields of the service that the excerpts read or write. \<open>detection_service\<close> tells
  whether a DetectionService is attached (\<^verbatim>\<open>hasattr(self, 'detection_service') and
  self.detection_service\<close>); the service's own counters (\<^verbatim>\<open>self.stats\<close>) are left out.
\<close>

record CameraService =
  is_running :: bool
  is_live :: bool
  cap :: "VideoCapture option"
  last_live_classification :: "string option"
  detection_service :: bool

definition healthy :: "CameraService \<Rightarrow> bool" where
  \<comment> \<open>\<^verbatim>\<open>self.cap and self.cap.isOpened()\<close>\<close>
  "healthy s = (case cap s of None \<Rightarrow> False | Some c \<Rightarrow> isOpened c)"

definition start_camera_rest ::
  "int \<Rightarrow> CameraService \<times> Device \<Rightarrow> bool \<times> CameraService \<times> Device" where
  \<comment> \<open>Modelled from the spec: the remainder of \<^verbatim>\<open>start_camera\<close>, elided in the
      excerpt after the handle is created. Section 4.1: the handle is configured and the
      background loop spawned; the start fails (DeviceUnavailable) if the handle cannot
      be opened after one retry, and the camera then stays stopped without a handle.\<close>
  "start_camera_rest camera_index sd =
     (let (s, d) = sd;
          (s1, d1) = (if healthy s then (s, d)
                      else (let (c, d') = cv2_VideoCapture camera_index d
                            in (s\<lparr>cap := Some c\<rparr>, d')))
      in if healthy s1 then (True, s1\<lparr>is_running := True\<rparr>, d1)
         else (False, s1\<lparr>cap := None, is_running := False\<rparr>, d1))"

definition start_camera ::
  "int \<Rightarrow> CameraService \<times> Device \<Rightarrow> bool \<times> CameraService \<times> Device" where
  \<comment> \<open>\<^verbatim>\<open>CAMARA_REAL_INTEGRADA.md\<close>, "Reinicio Automatico de Camara": return at once when
      running with an open handle; otherwise release a previous handle, create a new
      one and go on.\<close>
  "start_camera camera_index sd =
     (let (s, d) = sd in
      if is_running s \<and> healthy s then (True, s, d)
      else
        let s1 = (if cap s \<noteq> None then s\<lparr>cap := None\<rparr> else s);
            (c, d1) = cv2_VideoCapture camera_index d
        in start_camera_rest camera_index (s1\<lparr>cap := Some c\<rparr>, d1))"

definition stop_camera :: "CameraService \<Rightarrow> CameraService" where
  \<comment> \<open>\<^verbatim>\<open>CAMARA_REAL_INTEGRADA.md\<close>, "Flujo de Cierre": \<^verbatim>\<open>is_running = False\<close>,
      \<^verbatim>\<open>is_live = False\<close>, join the thread, \<^verbatim>\<open>cap.release()\<close>, \<^verbatim>\<open>cap = None\<close>.\<close>
  "stop_camera s = s\<lparr>is_running := False, is_live := False, cap := None\<rparr>"

definition toggle_live :: "CameraService \<times> Device \<Rightarrow> bool \<times> CameraService \<times> Device" where
  \<comment> \<open>\<^verbatim>\<open>CAMARA_REAL_INTEGRADA.md\<close>, "Auto-inicio en Toggle Live".\<close>
  "toggle_live sd =
     (let (s, d) = sd;
          (started, s1, d1) = (if \<not> is_running s then start_camera 0 (s, d) else (True, s, d))
      in if \<not> started then (False, s1, d1)
         else (\<not> is_live s1, s1\<lparr>is_live := \<not> is_live s1\<rparr>, d1))"

record Backend =
  camera :: CameraService
  device :: Device
  store :: StatsStore

definition capture_frame ::
  "store_env \<Rightarrow> DetectionResult \<Rightarrow> Backend \<Rightarrow> DetectionResult option \<times> Backend" where
  \<comment> \<open>\<^verbatim>\<open>CAMARA_REAL_INTEGRADA.md\<close>, "Auto-inicio en Captura" and "Integracion con
      DetectionService": the auto-start guard and the statistics update are the two
      excerpts of \<^verbatim>\<open>capture_frame\<close>; the processing between them is elided there, and
      its outcome, the verdict of the captured frame, is the argument \<open>result\<close>. An
      exception of \<^verbatim>\<open>_update_stats\<close> is caught and printed.\<close>
  "capture_frame env result b =
     (let (started, s1, d1) =
            (if \<not> is_running (camera b) then start_camera 0 (camera b, device b)
             else (True, camera b, device b));
          b1 = b\<lparr>camera := s1, device := d1\<rparr>
      in if \<not> started then (None, b1)
         else if detection_service s1
         then (Some result, b1\<lparr>store := snd (update_stats env result (store b1))\<rparr>)
         else (Some result, b1))"

definition update_stats_for_live_mode :: "store_env \<Rightarrow> DetectionResult \<Rightarrow> Backend \<Rightarrow> Backend" where
  \<comment> \<open>\<^verbatim>\<open>DOCUMENTACION/INTEGRACION_MONITOREO_CAPTURA.md\<close>,
      \<^verbatim>\<open>_update_stats_for_live_mode\<close>, as listed: the guard and the write. The listing
      compares with \<^verbatim>\<open>self.last_live_classification\<close> and never assigns it.\<close>
  "update_stats_for_live_mode env result b =
     (let current_classification = classification result in
      if last_live_classification (camera b) \<noteq> Some current_classification \<and>
         current_classification \<notin> set [''no_fruta'', ''desconocido'']
      then b\<lparr>store := snd (update_stats env result (store b))\<rparr>
      else b)"

fun camera_loop :: "(store_env \<times> DetectionResult) list \<Rightarrow> Backend \<Rightarrow> Backend" where
  \<comment> \<open>Modelled from the spec: the background loop is not among the excerpts. Sections
      4.1 and 5: it processes one frame after the other, and the Live flag gates
      whether a frame's verdict is offered to the statistics.\<close>
  "camera_loop [] b = b"
| "camera_loop ((env, result) # frames) b =
     camera_loop frames
       (if is_live (camera b) then update_stats_for_live_mode env result b else b)"

definition relabel :: "bool \<Rightarrow> string option \<Rightarrow> CameraService \<Rightarrow> CameraService" where
  \<comment> \<open>The same service with another Live flag and another last live classification.\<close>
  "relabel l x s = s\<lparr>is_live := l, last_live_classification := x\<rparr>"

definition writes :: "Backend \<Rightarrow> int" where
  \<comment> \<open>Each \<^verbatim>\<open>_update_stats\<close> call counts one detection: the counter measures the writes.\<close>
  "writes b = total_detections (summary (mem (store b)))"

section \<open>StreamRenderer\<close>

text \<open>
  \<^verbatim>\<open>_create_display_frame\<close> (\<^verbatim>\<open>DOCUMENTACION/INTEGRACION_VISUAL_STREAMING.md\<close>) draws on a
  copy of the frame. The model returns the drawing calls in order; colours are OpenCV's
  (blue, green, red) triples. The mask is given by its pixel values.
\<close>

fun contains :: "string \<Rightarrow> string \<Rightarrow> bool" where
  \<comment> \<open>Python's \<^verbatim>\<open>sub in s\<close> on strings.\<close>
  "contains sub [] = (sub = [])"
| "contains sub (c # cs) = (take (length sub) (c # cs) = sub \<or> contains sub cs)"

type_synonym colour = "nat \<times> nat \<times> nat"

datatype caption = Verdict string string real | Instructions

datatype draw =
    AddWeighted real real
  | Rectangle "int \<times> int" "int \<times> int" colour nat
  | PutText caption "int \<times> int" colour nat

definition create_display_frame ::
  "nat list option \<Rightarrow> (int \<times> int \<times> int \<times> int) option \<Rightarrow> string \<Rightarrow> real \<Rightarrow> string \<Rightarrow>
   draw list" where
  "create_display_frame mask_px bbox final_label final_conf source =
     (case mask_px of
        None \<Rightarrow> []
      | Some px \<Rightarrow> if list_ex (\<lambda>p. p \<noteq> 0) px then [AddWeighted 1 (25 / 100)] else []) @
     (case bbox of
        None \<Rightarrow> []
      | Some (x, y, w, h) \<Rightarrow>
          (let color = (if contains ''buena'' final_label then (0, 255, 0) else (0, 0, 255))
           in [Rectangle (x, y) (x + w, y + h) color 2,
               PutText (Verdict final_label source final_conf) (x, max 15 (y - 10))
                 (255, 255, 255) 2])) @
     [PutText Instructions (10, 20) (255, 255, 255) 1]"

definition boxes :: "draw list \<Rightarrow> colour list" where
  "boxes ds = concat (map (\<lambda>d. case d of Rectangle p q c t \<Rightarrow> [c] | _ \<Rightarrow> []) ds)"

definition green :: colour where "green = (0, 255, 0)"

definition red :: colour where "red = (0, 0, 255)"

definition yellow :: colour where
  \<comment> \<open>The triple the document's table gives for "Amarillo".\<close>
  "yellow = (255, 255, 0)"

section \<open>Web interface\<close>

subsection \<open>StatsPanel\<close>

text \<open>
  The values \<^verbatim>\<open>StatsPanel.tsx\<close> computes before rendering. Every value is a
  JavaScript number, an IEEE double: a finite double is modelled by the real it
  denotes, and the rounding of a computed result to the nearest double is the
  argument \<open>fl\<close> of the definitions, so that \<^verbatim>\<open>a + b\<close> is \<open>fl (a + b)\<close>. The panel
  reads four numbers of \<^verbatim>\<open>stats.summary\<close>, which \<^verbatim>\<open>api.ts\<close> types as \<^verbatim>\<open>number\<close>; they
  are the record \<open>summary_numbers\<close>, and \<open>None\<close> stands for a missing \<^verbatim>\<open>stats\<close>.
  \<^verbatim>\<open>a || b\<close> yields \<^verbatim>\<open>b\<close> when \<^verbatim>\<open>a\<close> is undefined or 0; \<^verbatim>\<open>Math.round\<close> is exact and
  rounds half up.
\<close>

record summary_numbers =
  n_total_detections :: real
  n_total_fruits :: real
  n_total_non_fruits :: real
  n_success_rate :: real

definition Math_round :: "real \<Rightarrow> int" where
  "Math_round x = \<lfloor>x + 1 / 2\<rfloor>"

definition or_else :: "real option \<Rightarrow> real \<Rightarrow> real" where
  "or_else x y = (case x of None \<Rightarrow> y | Some v \<Rightarrow> if v \<noteq> 0 then v else y)"

record StatsPanelView =
  totalDetections :: real
  totalFruits :: real
  totalNonFruits :: real
  backendSuccessRate :: int

definition successRate :: "(real \<Rightarrow> real) \<Rightarrow> real \<Rightarrow> real \<Rightarrow> int" where
  \<comment> \<open>\<^verbatim>\<open>total > 0 ? Math.round((goodCount / total) * 100) : 0\<close>\<close>
  "successRate fl goodCount badCount =
     (let total = fl (goodCount + badCount)
      in if total > 0 then Math_round (fl (fl (goodCount / total) * 100)) else 0)"

definition StatsPanel ::
  "(real \<Rightarrow> real) \<Rightarrow> real \<Rightarrow> real \<Rightarrow> summary_numbers option \<Rightarrow> StatsPanelView" where
  "StatsPanel fl goodCount badCount backendStats =
     (let total = fl (goodCount + badCount)
      in \<lparr>totalDetections = or_else (map_option n_total_detections backendStats) total,
          totalFruits = or_else (map_option n_total_fruits backendStats) total,
          totalNonFruits = or_else (map_option n_total_non_fruits backendStats) 0,
          backendSuccessRate =
            (case backendStats of
               None \<Rightarrow> successRate fl goodCount badCount
             | Some bs \<Rightarrow>
                 if n_success_rate bs \<noteq> 0 then Math_round (fl (n_success_rate bs * 100))
                 else successRate fl goodCount badCount)\<rparr>)"

subsection \<open>App\<close>

text \<open>
  The state of \<^verbatim>\<open>App.tsx\<close> and the handlers behind the CAPTURAR button. A handler
  returns the new state and the requests and timers it issued; what the backend
  answers is an argument. The state variable \<^verbatim>\<open>confidence\<close> is the field
  \<open>autoConfidence\<close>, the detection result having a field of that name already.
  \<^verbatim>\<open>handleCapture\<close> is the handler of \<^verbatim>\<open>src/App.tsx\<close>; \<^verbatim>\<open>handleCapture_backend\<close> is
  the later version of the same handler, listed in
  \<^verbatim>\<open>DOCUMENTACION/INTEGRACION_VISUAL_STREAMING.md\<close>.
\<close>

record App =
  activeTab :: string
  goodCount :: int
  badCount :: int
  isLive :: bool
  isProcessing :: bool
  lastClassification :: "string option"
  showSettings :: bool
  showStats :: bool
  selectedFruit :: string
  autoClassification :: "string option"
  autoConfidence :: int
  isAwaitingConfirmation :: bool
  detectionResult :: "DetectionResult option"
  stats :: "StatsResponse option"
  error :: "string option"
  backendConnected :: "bool option"
  isStreaming :: bool

datatype callback = autoClassified

datatype effect =
    Fetch string string
  | SetTimeout callback nat

definition initial_App :: App where
  "initial_App =
     \<lparr>activeTab = ''home'', goodCount = 0, badCount = 0, isLive = False,
      isProcessing = False, lastClassification = None, showSettings = False,
      showStats = False, selectedFruit = ''apple'', autoClassification = None,
      autoConfidence = 0, isAwaitingConfirmation = False, detectionResult = None,
      stats = None, error = None, backendConnected = None, isStreaming = False\<rparr>"

definition loadStats :: "StatsResponse option \<Rightarrow> App \<Rightarrow> App \<times> effect list" where
  "loadStats response s =
     (case response of
        Some statsData \<Rightarrow>
          (s\<lparr>stats := Some statsData,
             goodCount := OK (fruits_by_status (summary statsData)),
             badCount := MALOGRADA (fruits_by_status (summary statsData))\<rparr>,
           [Fetch ''GET'' ''/stats''])
      | None \<Rightarrow> (s, [Fetch ''GET'' ''/stats'']))"

definition handleDetectionResult ::
  "StatsResponse option \<Rightarrow> DetectionResult \<Rightarrow> App \<Rightarrow> App \<times> effect list" where
  "handleDetectionResult stats_response result s =
     (let s1 = s\<lparr>detectionResult := Some result, error := None\<rparr>;
          s2 = (if is_fruit result
                then (if spoiled result
                      then s1\<lparr>badCount := badCount s1 + 1,
                              lastClassification := Some ''MALA''\<rparr>
                      else s1\<lparr>goodCount := goodCount s1 + 1,
                              lastClassification := Some ''BUENA''\<rparr>)
                else s1)
      in loadStats stats_response s2)"

definition handleApiError :: "string \<Rightarrow> App \<Rightarrow> App" where
  "handleApiError errorMessage s = s\<lparr>error := Some errorMessage, detectionResult := None\<rparr>"

definition simulateAutoClassification :: "App \<Rightarrow> App \<times> effect list" where
  "simulateAutoClassification s =
     (s\<lparr>isProcessing := True\<rparr>, [SetTimeout autoClassified 2000])"

definition autoClassified_fired :: "real \<Rightarrow> real \<Rightarrow> App \<Rightarrow> App" where
  \<comment> \<open>The timer's callback; the two arguments are the values of \<^verbatim>\<open>Math.random()\<close>.\<close>
  "autoClassified_fired random1 random2 s =
     (let isGood = (random1 > 3 / 10);
          verdict = (if isGood then ''BUENA'' else ''MALA'');
          confidenceLevel = \<lfloor>random2 * 20\<rfloor> + 80
      in s\<lparr>autoClassification := Some verdict,
           autoConfidence := confidenceLevel,
           isAwaitingConfirmation := True,
           isProcessing := False,
           lastClassification := Some verdict\<rparr>)"

definition handleCapture :: "App \<Rightarrow> App \<times> effect list" where
  "handleCapture s = (if isLive s then simulateAutoClassification s else (s, []))"

definition handleCapture_backend ::
  "string option + DetectionResult \<Rightarrow> StatsResponse option \<Rightarrow> App \<Rightarrow> App \<times> effect list" where
  "handleCapture_backend capture_response stats_response s =
     (if isLive s \<and> backendConnected s = Some True
      then
        (let s1 = s\<lparr>isProcessing := True\<rparr>;
             (s2, effects) =
               (case capture_response of
                  Inr result \<Rightarrow> handleDetectionResult stats_response result s1
                | Inl (Some message) \<Rightarrow> (handleApiError message s1, [])
                | Inl None \<Rightarrow> (handleApiError ''Error en captura'' s1, []))
         in (s2\<lparr>isProcessing := False\<rparr>, Fetch ''POST'' ''/capture'' # effects))
      else if isLive s then simulateAutoClassification s
      else (s, []))"

section \<open>Sample values\<close>

definition good_apple :: DetectionResult where
  "good_apple =
     \<lparr>timestamp = ''20250120_103000'', classification = ''buena'', confidence = 95 / 100,
      is_fruit = True, fruit_type = ''Manzana'', spoiled = False,
      image_shape = [720, 1280, 3],
      paths = \<lparr>original = ''salidas/results/20250120_103000_image.jpg'', roi = None,
               mask = None\<rparr>\<rparr>"

definition no_fruit :: DetectionResult where
  "no_fruit =
     good_apple\<lparr>classification := ''no_fruta'', is_fruit := False, fruit_type := ''No_Fruta''\<rparr>"

definition clock :: store_env where
  "clock = \<lparr>now = ''2025-01-20T10:30:00'', write_ok = True, retry_ok = True\<rparr>"

definition stopped_camera :: CameraService where
  "stopped_camera =
     \<lparr>is_running = False, is_live = False, cap = None, last_live_classification = None,
      detection_service = True\<rparr>"

definition running_camera :: CameraService where
  "running_camera = stopped_camera\<lparr>is_running := True, cap := Some (VideoCapture True)\<rparr>"

definition backend_of :: "CameraService \<Rightarrow> bool list \<Rightarrow> Backend" where
  "backend_of s os =
     \<lparr>camera = s, device = \<lparr>outcomes = os, opens = 0\<rparr>,
      store = new_store 100 ''2025-01-20T10:00:00''\<rparr>"

definition zero_numbers :: summary_numbers where
  \<comment> \<open>The summary of a store just reset, as the panel receives it.\<close>
  "zero_numbers =
     \<lparr>n_total_detections = 0, n_total_fruits = 0, n_total_non_fruits = 0, n_success_rate = 0\<rparr>"


section \<open>Properties of the StatsStore\<close>

lemma sum_values_bump: "sum_values (bump k d) = sum_values d + 1"
  by (induction d) (auto simp: sum_values_def)

lemma invariant_zero: "summary_invariant zero_summary"
  by (simp add: summary_invariant_def zero_summary_def sum_values_def)

lemma invariant_update:
  assumes "summary_invariant s"
  shows "summary_invariant (update_summary r s)"
  using assms
  by (simp add: summary_invariant_def update_summary_def Let_def bump_status_def
      sum_values_bump)

lemma store_invariant_new: "store_invariant (new_store n t)"
  by (simp add: store_invariant_def new_store_def zero_stats_def invariant_zero)

lemma store_invariant_op:
  assumes "store_invariant st"
  shows "store_invariant (apply_op st x)"
proof (cases x)
  case (Record env r)
  with assms show ?thesis
    by (simp add: store_invariant_def update_stats_def persist_def invariant_update)
next
  case (Reset env)
  with assms show ?thesis
    by (simp add: store_invariant_def reset_stats_def persist_def zero_stats_def
        invariant_zero)
qed

lemma store_invariant_foldl:
  assumes "store_invariant st"
  shows "store_invariant (foldl apply_op st ops)"
  using assms by (induction ops arbitrary: st) (simp_all add: store_invariant_op)

lemma update_stats_counts:
  "total_detections (summary (mem (snd (update_stats env r st)))) =
     total_detections (summary (mem st)) + 1"
  by (simp add: update_stats_def persist_def update_summary_def Let_def)

text \<open>
  C1. Every summary the store hands out, after any sequence of detections and resets
  applied to a fresh store, has total_fruits equal to the sum of the fruits_by_type
  values and to OK + MALOGRADA, and total_detections equal to total_fruits +
  total_non_fruits.
\<close>

theorem stats_summary_invariant:
  "total_fruits (summary (get_stats (run_store ops (new_store n t)))) =
     sum_values (fruits_by_type (summary (get_stats (run_store ops (new_store n t))))) \<and>
   total_fruits (summary (get_stats (run_store ops (new_store n t)))) =
     OK (fruits_by_status (summary (get_stats (run_store ops (new_store n t))))) +
     MALOGRADA (fruits_by_status (summary (get_stats (run_store ops (new_store n t))))) \<and>
   total_detections (summary (get_stats (run_store ops (new_store n t)))) =
     total_fruits (summary (get_stats (run_store ops (new_store n t)))) +
     total_non_fruits (summary (get_stats (run_store ops (new_store n t))))"
proof -
  have "store_invariant (run_store ops (new_store n t))"
    unfolding run_store_def by (rule store_invariant_foldl) (rule store_invariant_new)
  then show ?thesis
    by (simp add: store_invariant_def summary_invariant_def get_stats_def)
qed

text \<open>
  C2. Whatever the store held, a reset followed at once by a read yields the zeroed
  summary (all counters 0, no fruit types, OK = 0 and MALOGRADA = 0, success rate 0)
  and an empty detection history, whether or not the write to durable storage
  succeeded.
\<close>

theorem reset_then_get_stats_zero:
  "summary (get_stats (snd (reset_stats env st))) =
     \<lparr>total_detections = 0, total_fruits = 0, total_non_fruits = 0, fruits_by_type = [],
      fruits_by_status = \<lparr>OK = 0, MALOGRADA = 0\<rparr>, success_rate = 0\<rparr> \<and>
   detection_history (get_stats (snd (reset_stats env st))) = []"
  by (simp add: reset_stats_def persist_def get_stats_def zero_stats_def zero_summary_def)

section \<open>Properties of the FusionEngine\<close>

text \<open>
  C6. On a valid ROI, when the model's and the heuristic's votes agree on acceptable or
  defective, the fused vote has that label, the larger of the two confidences and
  source fused; when their labels differ, the heuristic's label wins if its confidence
  exceeds the trust threshold and the model's label wins otherwise. For the model at
  acceptable 0.9 and the heuristic at defective 0.95, the threshold 0.9 gives defective
  and the threshold 0.97 gives acceptable.
\<close>

theorem fuse_rule:
  "(vote_label m = vote_label h \<and> vote_label m \<in> {acceptable, defective} \<longrightarrow>
      fuse t True m h =
        \<lparr>vote_label = vote_label m,
         vote_confidence = max (vote_confidence m) (vote_confidence h),
         vote_source = fused\<rparr>) \<and>
   (vote_label m \<noteq> vote_label h \<longrightarrow>
      vote_label (fuse t True m h) =
        (if vote_confidence h > t then vote_label h else vote_label m)) \<and>
   vote_label
     (fuse (9 / 10) True
        \<lparr>vote_label = acceptable, vote_confidence = 9 / 10, vote_source = model\<rparr>
        \<lparr>vote_label = defective, vote_confidence = 95 / 100, vote_source = heuristic\<rparr>)
     = defective \<and>
   vote_label
     (fuse (97 / 100) True
        \<lparr>vote_label = acceptable, vote_confidence = 9 / 10, vote_source = model\<rparr>
        \<lparr>vote_label = defective, vote_confidence = 95 / 100, vote_source = heuristic\<rparr>)
     = acceptable"
  by (auto simp: fuse_def)

theorem fuse_rule_witness:
  "fuse (9 / 10) True
     \<lparr>vote_label = defective, vote_confidence = 6 / 10, vote_source = model\<rparr>
     \<lparr>vote_label = defective, vote_confidence = 8 / 10, vote_source = heuristic\<rparr>
   = \<lparr>vote_label = defective, vote_confidence = 8 / 10, vote_source = fused\<rparr> \<and>
   vote_label
     (fuse (9 / 10) True
        \<lparr>vote_label = acceptable, vote_confidence = 9 / 10, vote_source = model\<rparr>
        \<lparr>vote_label = defective, vote_confidence = 95 / 100, vote_source = heuristic\<rparr>)
     = defective"
  using
    fuse_rule [where t = "9 / 10"
      and m = "\<lparr>vote_label = defective, vote_confidence = 6 / 10, vote_source = model\<rparr>"
      and h = "\<lparr>vote_label = defective, vote_confidence = 8 / 10, vote_source = heuristic\<rparr>"]
    fuse_rule [where t = "9 / 10"
      and m = "\<lparr>vote_label = acceptable, vote_confidence = 9 / 10, vote_source = model\<rparr>"
      and h = "\<lparr>vote_label = defective, vote_confidence = 95 / 100, vote_source = heuristic\<rparr>"]
  by simp

section \<open>Properties of the CameraService\<close>

lemma start_noop: "is_running s \<Longrightarrow> healthy s \<Longrightarrow> start_camera i (s, d) = (True, s, d)"
  by (simp add: start_camera_def)

lemma start_success_state:
  assumes "fst (start_camera i (s, d))"
  shows "is_running (fst (snd (start_camera i (s, d)))) \<and>
         healthy (fst (snd (start_camera i (s, d))))"
  using assms
  by (auto simp: start_camera_def start_camera_rest_def healthy_def Let_def
      split: prod.splits if_splits option.splits)

lemma start_stopped_iff: "\<not> is_running s \<Longrightarrow> fst (start_camera i (s, d)) = device_opens d"
  by (cases "outcomes d")
    (auto simp: start_camera_def start_camera_rest_def device_opens_def cv2_VideoCapture_def
      healthy_def Let_def split: prod.splits list.splits)

lemma start_keeps_detection_service:
  "detection_service (fst (snd (start_camera i (s, d)))) = detection_service s"
  by (auto simp: start_camera_def start_camera_rest_def Let_def split: prod.splits)

lemma start_keeps_is_live:
  "is_live (fst (snd (start_camera i (s, d)))) = is_live s"
  by (auto simp: start_camera_def start_camera_rest_def Let_def split: prod.splits)

lemma start_succeeds_iff:
  "fst (start_camera i (s, d)) = (is_running s \<and> healthy s \<or> device_opens d)"
proof (cases "is_running s \<and> healthy s")
  case True
  then show ?thesis by (simp add: start_noop)
next
  case False
  then show ?thesis
    by (cases "outcomes d")
      (auto simp: start_camera_def start_camera_rest_def device_opens_def cv2_VideoCapture_def
        healthy_def Let_def split: prod.splits list.splits)
qed

lemma start_opens:
  "\<not> (is_running s \<and> healthy s) \<Longrightarrow>
   opens (snd (snd (start_camera i (s, d)))) = opens d + open_attempts d"
  by (cases "outcomes d")
    (auto simp: start_camera_def start_camera_rest_def open_attempts_def cv2_VideoCapture_def
      healthy_def Let_def split: prod.splits list.splits)

lemma start_failure_state:
  "\<not> fst (start_camera i (s, d)) \<Longrightarrow>
   \<not> is_running (fst (snd (start_camera i (s, d)))) \<and> cap (fst (snd (start_camera i (s, d)))) = None"
  by (cases "outcomes d")
    (auto simp: start_camera_def start_camera_rest_def cv2_VideoCapture_def
      healthy_def Let_def split: prod.splits list.splits if_splits)

lemma start_again:
  assumes ok: "fst (start_camera i (s, d))"
  shows "start_camera i (snd (start_camera i (s, d))) = (True, snd (start_camera i (s, d)))"
proof -
  obtain s' d' where sd: "snd (start_camera i (s, d)) = (s', d')"
    by (cases "snd (start_camera i (s, d))")
  from start_success_state[OF ok] sd have "is_running s'" "healthy s'" by simp_all
  then show ?thesis by (simp add: sd start_noop)
qed

text \<open>
  C4 (as amended). start_camera returns success exactly when the camera is already
  running with a healthy handle, and then it changes nothing, or the device opens at
  the first attempt or at the retry; a start that has to open the device makes one
  cv2.VideoCapture call, or two when the first handle is not open. After a start that
  returned success, a second call with no stop in between returns success, leaves the
  service and the device as they were and so makes no further cv2.VideoCapture call.
  A start that fails leaves the camera stopped without a handle, so the next call
  tries to open the device again.
\<close>

theorem start_camera_twice:
  "fst (start_camera i (s, d)) = (is_running s \<and> healthy s \<or> device_opens d) \<and>
   (is_running s \<and> healthy s \<longrightarrow> start_camera i (s, d) = (True, s, d)) \<and>
   (\<not> (is_running s \<and> healthy s) \<longrightarrow>
      opens (snd (snd (start_camera i (s, d)))) = opens d + open_attempts d) \<and>
   (fst (start_camera i (s, d)) \<longrightarrow>
      start_camera i (snd (start_camera i (s, d))) = (True, snd (start_camera i (s, d)))) \<and>
   (\<not> fst (start_camera i (s, d)) \<longrightarrow>
      \<not> is_running (fst (snd (start_camera i (s, d)))) \<and>
      cap (fst (snd (start_camera i (s, d)))) = None)"
  using start_succeeds_iff[of i s d] start_noop[of s i d] start_opens[of s i d]
    start_again[of i s d] start_failure_state[of i s d]
  by blast

text \<open>
  The claim as first stated fails where the device does not open: both calls return
  failure, and the second call makes two more attempts to open the device.
\<close>

theorem start_camera_twice_counterexample:
  "start_camera 0 (stopped_camera, \<lparr>outcomes = [], opens = 0\<rparr>) =
     (False, stopped_camera, \<lparr>outcomes = [], opens = 2\<rparr>) \<and>
   start_camera 0 (snd (start_camera 0 (stopped_camera, \<lparr>outcomes = [], opens = 0\<rparr>))) =
     (False, stopped_camera, \<lparr>outcomes = [], opens = 4\<rparr>)"
proof -
  have first: "start_camera 0 (stopped_camera, \<lparr>outcomes = [], opens = 0\<rparr>) =
     (False, stopped_camera, \<lparr>outcomes = [], opens = 2\<rparr>)"
    by (simp add: start_camera_def start_camera_rest_def stopped_camera_def
        cv2_VideoCapture_def healthy_def)
  have second: "start_camera 0 (stopped_camera, \<lparr>outcomes = [], opens = 2\<rparr>) =
     (False, stopped_camera, \<lparr>outcomes = [], opens = 4\<rparr>)"
    by (simp add: start_camera_def start_camera_rest_def stopped_camera_def
        cv2_VideoCapture_def healthy_def)
  show ?thesis by (simp add: first second)
qed

theorem start_camera_twice_witness:
  "is_running running_camera \<and> healthy running_camera \<and>
   start_camera 0 (running_camera, \<lparr>outcomes = [], opens = 1\<rparr>) =
     (True, running_camera, \<lparr>outcomes = [], opens = 1\<rparr>) \<and>
   start_camera 0 (stopped_camera, \<lparr>outcomes = [False, True], opens = 0\<rparr>) =
     (True, running_camera, \<lparr>outcomes = [], opens = 2\<rparr>) \<and>
   start_camera 0 (snd (start_camera 0 (stopped_camera, \<lparr>outcomes = [False, True], opens = 0\<rparr>))) =
     (True, running_camera, \<lparr>outcomes = [], opens = 2\<rparr>) \<and>
   fst (start_camera 0 (stopped_camera, \<lparr>outcomes = [], opens = 0\<rparr>)) = False \<and>
   is_running (fst (snd (start_camera 0 (stopped_camera, \<lparr>outcomes = [], opens = 0\<rparr>)))) = False \<and>
   opens (snd (snd (start_camera 0 (stopped_camera, \<lparr>outcomes = [], opens = 0\<rparr>)))) = 2"
proof -
  let ?d = "\<lparr>outcomes = [False, True], opens = 0\<rparr>"
  let ?u = "\<lparr>outcomes = [], opens = 0\<rparr>"
  have run: "is_running running_camera \<and> healthy running_camera"
    by (simp add: running_camera_def stopped_camera_def healthy_def)
  have stopped: "\<not> (is_running stopped_camera \<and> healthy stopped_camera)"
    by (simp add: stopped_camera_def)
  have first: "start_camera 0 (stopped_camera, ?d) =
      (True, running_camera, \<lparr>outcomes = [], opens = 2\<rparr>)"
    by (simp add: start_camera_def start_camera_rest_def stopped_camera_def running_camera_def
        cv2_VideoCapture_def healthy_def)
  have noop: "start_camera 0 (running_camera, \<lparr>outcomes = [], opens = 1\<rparr>) =
     (True, running_camera, \<lparr>outcomes = [], opens = 1\<rparr>)"
    using run
      start_camera_twice [where s = running_camera and i = 0
        and d = "\<lparr>outcomes = [], opens = 1\<rparr>"]
    by blast
  have again: "start_camera 0 (snd (start_camera 0 (stopped_camera, ?d))) =
      (True, snd (start_camera 0 (stopped_camera, ?d)))"
    using first start_camera_twice [where s = stopped_camera and i = 0 and d = ?d]
    by simp
  have fails: "\<not> fst (start_camera 0 (stopped_camera, ?u))"
    using stopped start_camera_twice [where s = stopped_camera and i = 0 and d = ?u]
    by (simp add: device_opens_def)
  have after: "\<not> is_running (fst (snd (start_camera 0 (stopped_camera, ?u))))"
    using fails start_camera_twice [where s = stopped_camera and i = 0 and d = ?u]
    by blast
  have count: "opens (snd (snd (start_camera 0 (stopped_camera, ?u)))) = 2"
    using stopped start_camera_twice [where s = stopped_camera and i = 0 and d = ?u]
    by (simp add: open_attempts_def)
  from run noop first again fails after count show ?thesis by simp
qed

lemma relabel_simps:
  "is_running (relabel l x s) = is_running s"
  "healthy (relabel l x s) = healthy s"
  "cap (relabel l x s) = cap s"
  "detection_service (relabel l x s) = detection_service s"
  "(relabel l x s)\<lparr>cap := c\<rparr> = relabel l x (s\<lparr>cap := c\<rparr>)"
  "(relabel l x s)\<lparr>is_running := r\<rparr> = relabel l x (s\<lparr>is_running := r\<rparr>)"
  by (simp_all add: relabel_def healthy_def)

lemma start_rest_relabel:
  "start_camera_rest i (relabel l x s, d) =
     (fst (start_camera_rest i (s, d)), relabel l x (fst (snd (start_camera_rest i (s, d)))),
      snd (snd (start_camera_rest i (s, d))))"
proof (cases "cv2_VideoCapture i d")
  case (Pair c d')
  then show ?thesis
    by (simp add: start_camera_rest_def relabel_simps)
qed

lemma start_relabel:
  "start_camera i (relabel l x s, d) =
     (fst (start_camera i (s, d)), relabel l x (fst (snd (start_camera i (s, d)))),
      snd (snd (start_camera i (s, d))))"
proof (cases "cv2_VideoCapture i d")
  case (Pair c d')
  then show ?thesis
    by (simp add: start_camera_def relabel_simps start_rest_relabel)
qed

subsection \<open>Capture\<close>

lemma capture_relabel:
  "fst (capture_frame env r (b\<lparr>camera := relabel l x (camera b)\<rparr>)) = fst (capture_frame env r b)"
  "store (snd (capture_frame env r (b\<lparr>camera := relabel l x (camera b)\<rparr>))) =
     store (snd (capture_frame env r b))"
proof -
  obtain ok s1 d1 where st: "start_camera 0 (camera b, device b) = (ok, s1, d1)"
    by (cases "start_camera 0 (camera b, device b)")
  show "fst (capture_frame env r (b\<lparr>camera := relabel l x (camera b)\<rparr>)) =
      fst (capture_frame env r b)"
    by (simp add: capture_frame_def start_relabel relabel_simps st Let_def)
  show "store (snd (capture_frame env r (b\<lparr>camera := relabel l x (camera b)\<rparr>))) =
     store (snd (capture_frame env r b))"
    by (simp add: capture_frame_def start_relabel relabel_simps st Let_def)
qed

lemma capture_ignores_live:
  "store (snd (capture_frame env r
      (b\<lparr>camera := (camera b)\<lparr>is_live := l, last_live_classification := x\<rparr>\<rparr>))) =
     store (snd (capture_frame env r b))"
  using capture_relabel(2)[where env = env and r = r and b = b and l = l and x = x]
  by (simp add: relabel_def)

lemma capture_stopped:
  assumes "\<not> is_running (camera b)"
  shows "fst (capture_frame env r b) = (if device_opens (device b) then Some r else None)"
    and "(camera (snd (capture_frame env r b)), device (snd (capture_frame env r b))) =
           snd (start_camera 0 (camera b, device b))"
proof -
  obtain ok s1 d1 where st: "start_camera 0 (camera b, device b) = (ok, s1, d1)"
    by (cases "start_camera 0 (camera b, device b)")
  from start_stopped_iff[OF assms, of 0 "device b"] st have ok: "ok = device_opens (device b)"
    by simp
  show "fst (capture_frame env r b) = (if device_opens (device b) then Some r else None)"
    using assms by (simp add: capture_frame_def st ok Let_def)
  show "(camera (snd (capture_frame env r b)), device (snd (capture_frame env r b))) =
           snd (start_camera 0 (camera b, device b))"
    using assms by (simp add: capture_frame_def st Let_def)
qed

lemma toggle_stopped:
  assumes "\<not> is_running s"
  shows "toggle_live (s, d) =
     (if device_opens d
      then (\<not> is_live s,
            (fst (snd (start_camera 0 (s, d))))\<lparr>is_live := \<not> is_live s\<rparr>,
            snd (snd (start_camera 0 (s, d))))
      else (False, snd (start_camera 0 (s, d))))"
proof -
  obtain ok s1 d1 where st: "start_camera 0 (s, d) = (ok, s1, d1)"
    by (cases "start_camera 0 (s, d)")
  from start_stopped_iff[OF assms, of 0 d] st have ok: "ok = device_opens d" by simp
  from start_keeps_is_live[of 0 s d] st have live: "is_live s1 = is_live s" by simp
  show ?thesis using assms by (simp add: toggle_live_def st ok live)
qed

text \<open>
  C3 (as amended). After stop_camera, capture and toggle_live each make one implicit
  start_camera call: the state they leave is the one that call leaves. The operation
  goes through when that start succeeds, which it does exactly when the device opens
  on the first attempt or on the retry, and fails (None, False) when it does not.
\<close>

theorem capture_after_stop:
  "fst (capture_frame env r (b\<lparr>camera := stop_camera (camera b)\<rparr>)) =
     (if device_opens (device b) then Some r else None) \<and>
   (camera (snd (capture_frame env r (b\<lparr>camera := stop_camera (camera b)\<rparr>))),
    device (snd (capture_frame env r (b\<lparr>camera := stop_camera (camera b)\<rparr>)))) =
     snd (start_camera 0 (stop_camera (camera b), device b)) \<and>
   fst (start_camera 0 (stop_camera (camera b), device b)) = device_opens (device b) \<and>
   toggle_live (stop_camera s, d) =
     (if device_opens d
      then (True, (fst (snd (start_camera 0 (stop_camera s, d))))\<lparr>is_live := True\<rparr>,
            snd (snd (start_camera 0 (stop_camera s, d))))
      else (False, snd (start_camera 0 (stop_camera s, d))))"
proof -
  let ?b = "b\<lparr>camera := stop_camera (camera b)\<rparr>"
  have stopped: "\<not> is_running (camera ?b)" "\<not> is_running (stop_camera s)"
    by (simp_all add: stop_camera_def)
  have not_live: "\<not> is_live (stop_camera s)" by (simp add: stop_camera_def)
  show ?thesis
    using capture_stopped[OF stopped(1), of env r] toggle_stopped[OF stopped(2), of d]
      start_stopped_iff[OF stopped(2), of 0] start_stopped_iff[OF stopped(1), of 0 "device b"]
      not_live
    by simp
qed

text \<open>
  The claim as first stated fails where the device cannot be opened: the camera was
  running, is stopped, and the capture that follows returns None.
\<close>

theorem capture_after_stop_counterexample:
  "fst (capture_frame clock good_apple
          ((backend_of running_camera [])\<lparr>camera := stop_camera running_camera\<rparr>)) = None"
  by (simp add: capture_frame_def backend_of_def stop_camera_def running_camera_def
      stopped_camera_def start_camera_def start_camera_rest_def cv2_VideoCapture_def
      healthy_def)

text \<open>Where the device opens, the same capture after the same stop returns its verdict.\<close>

lemma capture_recovers:
  "fst (capture_frame clock good_apple
          ((backend_of running_camera [True])\<lparr>camera := stop_camera running_camera\<rparr>)) =
     Some good_apple"
proof -
  let ?b = "(backend_of running_camera [True])\<lparr>camera := stop_camera running_camera\<rparr>"
  have "\<not> is_running (camera ?b)" by (simp add: stop_camera_def)
  moreover have "device_opens (device ?b)" by (simp add: backend_of_def device_opens_def)
  ultimately show ?thesis by (simp add: capture_stopped(1))
qed

lemma capture_write_cases:
  "(detection_service (camera b) \<and> (is_running (camera b) \<or> device_opens (device b)) \<longrightarrow>
      fst (capture_frame env r b) = Some r \<and>
      store (snd (capture_frame env r b)) = snd (update_stats env r (store b)) \<and>
      writes (snd (capture_frame env r b)) = writes b + 1) \<and>
   (fst (capture_frame env r b) = None \<or> \<not> detection_service (camera b) \<longrightarrow>
      store (snd (capture_frame env r b)) = store b)"
proof -
  obtain ok s1 d1 where st: "start_camera 0 (camera b, device b) = (ok, s1, d1)"
    by (cases "start_camera 0 (camera b, device b)")
  from start_keeps_detection_service[of 0 "camera b" "device b"] st
  have ds: "detection_service s1 = detection_service (camera b)" by simp
  have ok: "ok = device_opens (device b)" if "\<not> is_running (camera b)"
    using start_stopped_iff[OF that, of 0 "device b"] st by simp
  show ?thesis
  proof (cases "is_running (camera b)")
    case True
    then show ?thesis
      by (simp add: capture_frame_def writes_def update_stats_counts Let_def)
  next
    case False
    with ok have "ok = device_opens (device b)" by simp
    with False show ?thesis
      by (simp add: capture_frame_def st ds writes_def update_stats_counts Let_def)
  qed
qed

text \<open>
  C7 (as amended). A capture that yields a verdict, on a camera service with a
  DetectionService attached, leaves the store as one _update_stats call for that
  verdict leaves it, one detection more than before, whatever the Live flag and the
  last live classification are. A capture yields a verdict when the camera is running
  or the implicit start succeeds. A capture that fails, or a camera service without a
  DetectionService, leaves the store as it was.
\<close>

theorem capture_forces_stats_write:
  "(detection_service (camera b) \<and> (is_running (camera b) \<or> device_opens (device b)) \<longrightarrow>
      fst (capture_frame env r b) = Some r \<and>
      store (snd (capture_frame env r b)) = snd (update_stats env r (store b)) \<and>
      writes (snd (capture_frame env r b)) = writes b + 1) \<and>
   store (snd (capture_frame env r
      (b\<lparr>camera := (camera b)\<lparr>is_live := l, last_live_classification := x\<rparr>\<rparr>))) =
     store (snd (capture_frame env r b)) \<and>
   (fst (capture_frame env r b) = None \<or> \<not> detection_service (camera b) \<longrightarrow>
      store (snd (capture_frame env r b)) = store b)"
  using capture_write_cases[where b = b and env = env and r = r]
    capture_ignores_live[where b = b and env = env and r = r and l = l and x = x]
  by blast

theorem capture_forces_stats_write_witness:
  "detection_service (camera (backend_of running_camera [])) \<and>
   is_running (camera (backend_of running_camera [])) \<and>
   \<not> is_live (camera (backend_of running_camera [])) \<and>
   fst (capture_frame clock good_apple (backend_of running_camera [])) = Some good_apple \<and>
   writes (snd (capture_frame clock good_apple (backend_of running_camera []))) = 1 \<and>
   fst (capture_frame clock good_apple (backend_of stopped_camera [])) = None \<and>
   store (snd (capture_frame clock good_apple (backend_of stopped_camera []))) =
     store (backend_of stopped_camera [])"
proof -
  let ?b = "backend_of running_camera []"
  have h: "detection_service (camera ?b) \<and> is_running (camera ?b) \<and> \<not> is_live (camera ?b)"
    by (simp add: backend_of_def running_camera_def stopped_camera_def)
  have w: "writes ?b = 0"
    by (simp add: writes_def backend_of_def new_store_def zero_stats_def zero_summary_def)
  have n: "fst (capture_frame clock good_apple (backend_of stopped_camera [])) = None"
    by (simp add: capture_frame_def backend_of_def stopped_camera_def start_camera_def
        start_camera_rest_def cv2_VideoCapture_def healthy_def)
  have written: "fst (capture_frame clock good_apple ?b) = Some good_apple \<and>
      writes (snd (capture_frame clock good_apple ?b)) = writes ?b + 1"
    using h capture_forces_stats_write [where b = ?b and env = clock and r = good_apple]
    by blast
  have kept: "store (snd (capture_frame clock good_apple (backend_of stopped_camera []))) =
      store (backend_of stopped_camera [])"
    using n
      capture_forces_stats_write [where b = "backend_of stopped_camera []" and env = clock
        and r = good_apple]
    by blast
  from h w n written kept show ?thesis by simp
qed

text \<open>
  The claim as first stated fails on a camera service without a DetectionService: the
  capture returns its verdict and the store is not written.
\<close>

theorem capture_forces_stats_write_counterexample:
  "capture_frame clock good_apple
     (backend_of (running_camera\<lparr>detection_service := False\<rparr>) [True]) =
   (Some good_apple, backend_of (running_camera\<lparr>detection_service := False\<rparr>) [True])"
  by (simp add: capture_frame_def backend_of_def running_camera_def stopped_camera_def)

subsection \<open>Live mode\<close>

lemma live_step_blocked:
  "classification r \<in> {''no_fruta'', ''desconocido''} \<Longrightarrow>
   update_stats_for_live_mode env r b = b"
  by (auto simp: update_stats_for_live_mode_def Let_def)

lemma live_step_last:
  "last_live_classification (camera b) = Some (classification r) \<Longrightarrow>
   update_stats_for_live_mode env r b = b"
  by (simp add: update_stats_for_live_mode_def Let_def)



lemma loop_blocked:
  "\<forall>(env, r) \<in> set frames. classification r \<in> {''no_fruta'', ''desconocido''} \<Longrightarrow>
   camera_loop frames b = b"
proof (induction frames arbitrary: b)
  case Nil
  then show ?case by simp
next
  case (Cons f frames)
  obtain env r where f: "f = (env, r)" by (cases f)
  from Cons.prems f have r: "classification r \<in> {''no_fruta'', ''desconocido''}" by simp
  from Cons.prems
  have rest: "\<forall>(env, r) \<in> set frames. classification r \<in> {''no_fruta'', ''desconocido''}"
    by simp
  show ?case
    using Cons.IH[OF rest] live_step_blocked[OF r] by (simp add: f)
qed



section \<open>Properties of the StreamRenderer\<close>

lemma box_colour:
  "boxes (create_display_frame mask_px (Some (x, y, w, h)) final_label final_conf source) =
     [if contains ''buena'' final_label then green else red]"
  by (cases mask_px) (auto simp: create_display_frame_def boxes_def green_def red_def)

lemma no_bbox_no_box:
  "boxes (create_display_frame mask_px None final_label final_conf source) = []"
  by (cases mask_px) (auto simp: create_display_frame_def boxes_def)

text \<open>
  C8. The box of a frame labelled desconocido is drawn red, not yellow: the colour is
  green when the label contains "buena" and red for every other label, and whether a
  box is drawn depends on the bounding box alone.
\<close>

theorem unknown_label_box_is_red:
  "boxes (create_display_frame None (Some (10, 10, 50, 50)) ''desconocido'' (45 / 100) ''modelo'')
     = [red] \<and>
   red \<noteq> yellow \<and>
   boxes (create_display_frame None (Some (10, 10, 50, 50)) ''manzana_buena'' (85 / 100) ''ambos'')
     = [green] \<and>
   boxes (create_display_frame None (Some (10, 10, 50, 50)) ''manzana_mala'' (72 / 100)
     ''heuristica'') = [red] \<and>
   boxes (create_display_frame None None ''no_fruta'' 1 ''ambos'') = []"
  by (simp add: create_display_frame_def boxes_def green_def red_def yellow_def)

section \<open>Properties of the web interface\<close>

text \<open>
  C9. With a backend summary present, the panel shows the sum of goodCount and
  badCount for the total of detections when the summary's total_detections is 0, the
  same for the total of fruits when its total_fruits is 0, and the locally computed
  rate when its success_rate is 0. The sum and the rate are the component's own
  double arithmetic, whatever the rounding \<open>fl\<close> is.
\<close>

theorem StatsPanel_zero_falls_back:
  "(n_total_detections st = 0 \<longrightarrow>
      totalDetections (StatsPanel fl good bad (Some st)) = fl (good + bad)) \<and>
   (n_total_fruits st = 0 \<longrightarrow>
      totalFruits (StatsPanel fl good bad (Some st)) = fl (good + bad)) \<and>
   (n_success_rate st = 0 \<longrightarrow>
      backendSuccessRate (StatsPanel fl good bad (Some st)) =
        (if fl (good + bad) > 0
         then Math_round (fl (fl (good / fl (good + bad)) * 100))
         else 0))"
  by (simp add: StatsPanel_def or_else_def successRate_def Let_def)

theorem StatsPanel_zero_falls_back_witness:
  "n_total_detections zero_numbers = 0 \<and>
   n_total_fruits zero_numbers = 0 \<and>
   n_success_rate zero_numbers = 0 \<and>
   StatsPanel (\<lambda>x. x) 3 1 (Some zero_numbers) =
     \<lparr>totalDetections = 4, totalFruits = 4, totalNonFruits = 0, backendSuccessRate = 75\<rparr>"
proof -
  have zero: "n_total_detections zero_numbers = 0 \<and> n_total_fruits zero_numbers = 0 \<and>
      n_success_rate zero_numbers = 0"
    by (simp add: zero_numbers_def)
  have non: "totalNonFruits (StatsPanel (\<lambda>x. x) 3 1 (Some zero_numbers)) = 0"
    by (simp add: StatsPanel_def or_else_def zero_numbers_def)
  have eq: "v = \<lparr>totalDetections = totalDetections v, totalFruits = totalFruits v,
      totalNonFruits = totalNonFruits v, backendSuccessRate = backendSuccessRate v\<rparr>"
    for v :: StatsPanelView
    by simp
  show ?thesis
    using zero non
      StatsPanel_zero_falls_back [where st = zero_numbers and fl = "\<lambda>x. x"
        and good = 3 and bad = 1]
      eq [of "StatsPanel (\<lambda>x. x) 3 1 (Some zero_numbers)"]
    by (simp add: Math_round_def)
qed

text \<open>
  With the rounding of IEEE doubles at the three results involved, 23 good and 17 bad
  fruits give the local rate 57, as the component shows.
\<close>

lemma successRate_in_doubles:
  assumes "fl 40 = 40"
    and "fl (23 / 40) = 2589569785738035 / 4503599627370496"
    and "fl (2589569785738035 / 4503599627370496 * 100) = 8092405580431359 / 140737488355328"
  shows "successRate fl 23 17 = 57"
proof -
  have "successRate fl 23 17 =
      (if fl 40 > 0 then Math_round (fl (fl (23 / fl 40) * 100)) else 0)"
    by (simp add: successRate_def Let_def)
  also have "\<dots> = Math_round (fl (fl (23 / 40) * 100))"
    unfolding assms(1) by simp
  also have "\<dots> = Math_round (8092405580431359 / 140737488355328)"
    unfolding assms(2) assms(3) ..
  also have "\<dots> = 57"
    by (simp add: Math_round_def)
  finally show ?thesis .
qed

text \<open>
  C10. With live mode off the CAPTURAR handler does nothing: the state, counters
  included, is unchanged, no request is sent and no classification is scheduled. This
  holds for the handler of App.tsx and for its later version that calls the backend.
\<close>

theorem handleCapture_idle_when_not_live:
  "\<not> isLive s \<longrightarrow>
     handleCapture s = (s, []) \<and>
     handleCapture_backend capture_response stats_response s = (s, [])"
  by (simp add: handleCapture_def handleCapture_backend_def)

theorem handleCapture_idle_when_not_live_witness:
  "isLive initial_App = False \<and>
   handleCapture (initial_App\<lparr>backendConnected := Some True\<rparr>) =
     (initial_App\<lparr>backendConnected := Some True\<rparr>, []) \<and>
   handleCapture_backend (Inr good_apple) None (initial_App\<lparr>backendConnected := Some True\<rparr>) =
     (initial_App\<lparr>backendConnected := Some True\<rparr>, [])"
proof -
  have off: "\<not> isLive (initial_App\<lparr>backendConnected := Some True\<rparr>)"
    by (simp add: initial_App_def)
  show ?thesis
    using off
      handleCapture_idle_when_not_live [where s = "initial_App\<lparr>backendConnected := Some True\<rparr>"
        and capture_response = "Inr good_apple" and stats_response = None]
    by (simp add: initial_App_def)
qed


end
